theory Spec2Isabelle
  imports Complex_Main "HOL-Library.Word"
begin

section \<open>The fixture generator \<^verbatim>\<open>src/example/testdata.py\<close>\<close>

text \<open>
  The script creates the directory \<^verbatim>\<open>data\<close> and, for each of twelve NumPy element
  types, writes four \<^verbatim>\<open>.npy\<close> files holding \<^verbatim>\<open>np.arange(8, dtype=dtype)\<close>, once per
  pair of \<^verbatim>\<open>dims\<close> in (1, 2) and \<^verbatim>\<open>order\<close> in ("C", "F"). The script itself is the three
  nested loops with the counter \<^verbatim>\<open>ii\<close>; everything else is a call into NumPy or pathlib.
  Those library calls are embedded here as executable functions following the
  libraries' documented behaviour on a little-endian machine: an array is a byte
  buffer with a shape and strides, a file is the byte string of the NPY format
  version 1.0, and the file system is a map from paths to nodes.
\<close>

subsection \<open>Element types (lines 9-22) and their type strings (line 26)\<close>

datatype ElementType =
  np_int8 | np_int16 | np_int32 | np_int64
| np_uint8 | np_uint16 | np_uint32 | np_uint64
| np_float32 | np_float64
| np_complex64 | np_complex128

definition dtype_list :: "ElementType list" where
  "dtype_list =
    [np_int8, np_int16, np_int32, np_int64,
     np_uint8, np_uint16, np_uint32, np_uint64,
     np_float32, np_float64,
     np_complex64, np_complex128]"

text \<open>\<^verbatim>\<open>np.dtype(t).kind\<close> and \<^verbatim>\<open>np.dtype(t).itemsize\<close>.\<close>

fun kind :: "ElementType \<Rightarrow> char" where
  "kind np_int8 = CHR ''i''"
| "kind np_int16 = CHR ''i''"
| "kind np_int32 = CHR ''i''"
| "kind np_int64 = CHR ''i''"
| "kind np_uint8 = CHR ''u''"
| "kind np_uint16 = CHR ''u''"
| "kind np_uint32 = CHR ''u''"
| "kind np_uint64 = CHR ''u''"
| "kind np_float32 = CHR ''f''"
| "kind np_float64 = CHR ''f''"
| "kind np_complex64 = CHR ''c''"
| "kind np_complex128 = CHR ''c''"

fun itemsize :: "ElementType \<Rightarrow> nat" where
  "itemsize np_int8 = 1"
| "itemsize np_int16 = 2"
| "itemsize np_int32 = 4"
| "itemsize np_int64 = 8"
| "itemsize np_uint8 = 1"
| "itemsize np_uint16 = 2"
| "itemsize np_uint32 = 4"
| "itemsize np_uint64 = 8"
| "itemsize np_float32 = 4"
| "itemsize np_float64 = 8"
| "itemsize np_complex64 = 8"
| "itemsize np_complex128 = 16"

text \<open>Python's \<^verbatim>\<open>str\<close> of an integer: decimal digits, a minus sign when negative.\<close>

definition digit_char :: "nat \<Rightarrow> char" where
  "digit_char d = ''0123456789'' ! d"

fun str_nat :: "nat \<Rightarrow> string" where
  "str_nat n = (if n < 10 then [digit_char n] else str_nat (n div 10) @ [digit_char (n mod 10)])"

declare str_nat.simps [simp del]

definition str_int :: "int \<Rightarrow> string" where
  "str_int i = (if i < 0 then CHR ''-'' # str_nat (nat (- i)) else str_nat (nat i))"

text \<open>
  \<^verbatim>\<open>np.dtype(t).str\<close>: the byte-order character (\<^verbatim>\<open>|\<close> for one-byte types, where byte
  order does not apply, \<^verbatim>\<open><\<close> for the native little-endian order), the kind and the
  item size. Line 26 drops the first character with the slice \<^verbatim>\<open>[1:]\<close>.
\<close>

definition byteorder :: "ElementType \<Rightarrow> char" where
  "byteorder t = (if itemsize t = 1 then CHR ''|'' else CHR ''<'')"

definition dtype_dot_str :: "ElementType \<Rightarrow> string" where
  "dtype_dot_str t = byteorder t # kind t # str_nat (itemsize t)"

definition dtype_str :: "ElementType \<Rightarrow> string" where
  "dtype_str t = drop 1 (dtype_dot_str t)"

subsection \<open>Element encodings\<close>

type_synonym byte = "8 word"

text \<open>The \<open>n\<close> low bytes of a natural number, least significant first, and back.\<close>

fun le_bytes :: "nat \<Rightarrow> nat \<Rightarrow> byte list" where
  "le_bytes 0 v = []"
| "le_bytes (Suc n) v = of_nat (v mod 256) # le_bytes n (v div 256)"

fun from_le :: "byte list \<Rightarrow> nat" where
  "from_le [] = 0"
| "from_le (b # bs) = unat b + 256 * from_le bs"

text \<open>Python's \<^verbatim>\<open>int.bit_length\<close> on a natural number.\<close>

fun bit_length :: "nat \<Rightarrow> nat" where
  "bit_length n = (if n = 0 then 0 else Suc (bit_length (n div 2)))"

declare bit_length.simps [simp del]

text \<open>
  The IEEE 754 binary interchange encoding, with \<open>eb\<close> exponent bits and \<open>mb\<close>
  fraction bits, of a natural number converted with round-to-nearest-even (the
  C conversion NumPy uses): the biased exponent above the fraction, the sign bit
  clear. A number too large for the format becomes infinity.
\<close>

definition float_bits :: "nat \<Rightarrow> nat \<Rightarrow> nat \<Rightarrow> nat" where
  "float_bits eb mb n =
    (if n = 0 then 0
     else
       let e = bit_length n - 1;
           bias = 2 ^ (eb - 1) - 1
       in if e \<le> mb then (e + bias) * 2 ^ mb + (n - 2 ^ e) * 2 ^ (mb - e)
          else
            let s = e - mb;
                q = n div 2 ^ s;
                r = n mod 2 ^ s;
                half = 2 ^ (s - 1);
                q' = (if half < r \<or> (r = half \<and> odd q) then q + 1 else q);
                e' = (if q' = 2 ^ (mb + 1) then e + 1 else e);
                m' = (if q' = 2 ^ (mb + 1) then 0 else q' - 2 ^ mb)
            in if bias < e' then (2 ^ eb - 1) * 2 ^ mb
               else (e' + bias) * 2 ^ mb + m')"

text \<open>Exponent and fraction widths of the floating-point component of a type.\<close>

fun float_format :: "ElementType \<Rightarrow> nat \<times> nat" where
  "float_format np_float32 = (8, 23)"
| "float_format np_complex64 = (8, 23)"
| "float_format t = (11, 52)"

text \<open>
  The bytes of the natural number \<open>k\<close> stored as one element of type \<open>t\<close>: an
  integer wraps to the item size, a float is its IEEE encoding, a complex number
  is the real part followed by a zero imaginary part.
\<close>

definition encode :: "ElementType \<Rightarrow> nat \<Rightarrow> byte list" where
  "encode t k =
    (if kind t = CHR ''c'' then
       le_bytes (itemsize t div 2) (float_bits (fst (float_format t)) (snd (float_format t)) k)
       @ le_bytes (itemsize t div 2) (float_bits (fst (float_format t)) (snd (float_format t)) 0)
     else if kind t = CHR ''f'' then
       le_bytes (itemsize t) (float_bits (fst (float_format t)) (snd (float_format t)) k)
     else le_bytes (itemsize t) (k mod 2 ^ (8 * itemsize t)))"

text \<open>
  Python values read back from an array with \<^verbatim>\<open>a[i].item()\<close>: an \<^verbatim>\<open>int\<close>, a finite
  \<^verbatim>\<open>float\<close> (a rational number), a \<^verbatim>\<open>complex\<close> of two finite floats. Infinities and NaNs
  have no rational value and are kept apart.
\<close>

datatype pyfloat = Finite rat | NonFinite

datatype pyval = PyInt int | PyFloat pyfloat | PyComplex pyfloat pyfloat

definition pow2 :: "int \<Rightarrow> rat" where
  "pow2 i = (if 0 \<le> i then 2 ^ nat i else 1 / 2 ^ nat (- i))"

text \<open>The value of an IEEE bit pattern: sign, biased exponent, fraction.\<close>

definition float_val :: "nat \<Rightarrow> nat \<Rightarrow> nat \<Rightarrow> pyfloat" where
  "float_val eb mb bits =
    (let m = bits mod 2 ^ mb;
         e = (bits div 2 ^ mb) mod 2 ^ eb;
         sgn = (if (bits div 2 ^ (mb + eb)) mod 2 = 1 then - 1 else 1);
         bias = 2 ^ (eb - 1) - 1
     in if e = 2 ^ eb - 1 then NonFinite
        else if e = 0 then Finite (sgn * of_nat m * pow2 (1 - int bias - int mb))
        else Finite (sgn * of_nat (2 ^ mb + m) * pow2 (int e - int bias - int mb)))"

definition decode :: "ElementType \<Rightarrow> byte list \<Rightarrow> pyval" where
  "decode t bs =
    (if kind t = CHR ''c'' then
       PyComplex
         (float_val (fst (float_format t)) (snd (float_format t)) (from_le (take (itemsize t div 2) bs)))
         (float_val (fst (float_format t)) (snd (float_format t)) (from_le (drop (itemsize t div 2) bs)))
     else if kind t = CHR ''f'' then
       PyFloat (float_val (fst (float_format t)) (snd (float_format t)) (from_le bs))
     else if kind t = CHR ''u'' then PyInt (int (from_le bs))
     else PyInt (if from_le bs < 2 ^ (8 * itemsize t - 1) then int (from_le bs)
                 else int (from_le bs) - 2 ^ (8 * itemsize t)))"

text \<open>The Python value that the whole number \<open>k\<close> is in type \<open>t\<close>.\<close>

definition whole :: "ElementType \<Rightarrow> nat \<Rightarrow> pyval" where
  "whole t k =
    (if kind t = CHR ''c'' then PyComplex (Finite (of_nat k)) (Finite 0)
     else if kind t = CHR ''f'' then PyFloat (Finite (of_nat k))
     else PyInt (int k))"

subsection \<open>Arrays (lines 30-34)\<close>

text \<open>
  A NumPy array: the element type, the shape, the strides in bytes, one per axis,
  and the byte buffer the strides index into.
\<close>

record ndarray =
  dtype :: ElementType
  shape :: "nat list"
  strides :: "nat list"
  buffer :: "byte list"

datatype order = OrderC | OrderF

datatype exn =
  ValueError | IndexError
| FileNotFoundError | FileExistsError | IsADirectoryError | NotADirectoryError
| PermissionError | OSError

text \<open>Strides of a contiguous array of the given item size and shape, in each order.\<close>

fun c_strides :: "nat \<Rightarrow> nat list \<Rightarrow> nat list" where
  "c_strides isz [] = []"
| "c_strides isz (n # ns) = (isz * prod_list ns) # c_strides isz ns"

definition f_strides :: "nat \<Rightarrow> nat list \<Rightarrow> nat list" where
  "f_strides isz shp = rev (c_strides isz (rev shp))"

definition strides_for :: "order \<Rightarrow> nat \<Rightarrow> nat list \<Rightarrow> nat list" where
  "strides_for ord isz shp = (case ord of OrderC \<Rightarrow> c_strides isz shp | OrderF \<Rightarrow> f_strides isz shp)"

text \<open>
  All index tuples of a shape, in row-major order (last axis fastest) and in
  column-major order (first axis fastest).
\<close>

fun indices_C :: "nat list \<Rightarrow> nat list list" where
  "indices_C [] = [[]]"
| "indices_C (n # ns) = concat (map (\<lambda>i. map ((#) i) (indices_C ns)) [0..<n])"

definition indices_F :: "nat list \<Rightarrow> nat list list" where
  "indices_F shp = map rev (indices_C (rev shp))"

definition indices :: "order \<Rightarrow> nat list \<Rightarrow> nat list list" where
  "indices ord shp = (case ord of OrderC \<Rightarrow> indices_C shp | OrderF \<Rightarrow> indices_F shp)"

text \<open>The bytes of the element at an index tuple, and indexing with its bounds check.\<close>

definition offset :: "ndarray \<Rightarrow> nat list \<Rightarrow> nat" where
  "offset a idx = sum_list (map2 (*) idx (strides a))"

definition element_bytes :: "ndarray \<Rightarrow> nat list \<Rightarrow> byte list" where
  "element_bytes a idx = take (itemsize (dtype a)) (drop (offset a idx) (buffer a))"

definition getitem :: "ndarray \<Rightarrow> nat list \<Rightarrow> exn + pyval" where
  "getitem a idx =
    (if length idx = length (shape a) \<and> list_all2 (<) idx (shape a)
     then Inr (decode (dtype a) (element_bytes a idx))
     else Inl IndexError)"

text \<open>\<^verbatim>\<open>a.tobytes(order)\<close>: the elements' bytes, read in the given index order.\<close>

definition tobytes :: "ndarray \<Rightarrow> order \<Rightarrow> byte list" where
  "tobytes a ord = concat (map (element_bytes a) (indices ord (shape a)))"

text \<open>\<^verbatim>\<open>np.arange(n, dtype=t)\<close>: the one-dimensional array of 0, 1, ..., n - 1.\<close>

definition np_arange :: "nat \<Rightarrow> ElementType \<Rightarrow> ndarray" where
  "np_arange n t =
    \<lparr>dtype = t, shape = [n], strides = [itemsize t],
     buffer = concat (map (encode t) [0..<n])\<rparr>"

text \<open>
  \<^verbatim>\<open>a.reshape(shp, order=ord)\<close>: the elements of \<open>a\<close> read in the index order \<open>ord\<close> are
  placed into the new shape in the same index order; the sizes must agree.
\<close>

definition np_reshape :: "ndarray \<Rightarrow> nat list \<Rightarrow> order \<Rightarrow> exn + ndarray" where
  "np_reshape a shp ord =
    (if prod_list shp \<noteq> prod_list (shape a) then Inl ValueError
     else Inr \<lparr>dtype = dtype a, shape = shp,
               strides = strides_for ord (itemsize (dtype a)) shp,
               buffer = tobytes a ord\<rparr>)"

text \<open>
  The contiguity flags as NumPy computes them: walking the axes from the fastest
  one, every axis longer than 1 must have the stride that the axes before it
  fill; an array with an empty axis is contiguous in both orders.
\<close>

fun contig_from :: "nat \<Rightarrow> (nat \<times> nat) list \<Rightarrow> bool" where
  "contig_from sd [] = True"
| "contig_from sd ((len, st) # rest) = ((len = 1 \<or> st = sd) \<and> contig_from (sd * len) rest)"

definition c_contiguous :: "ndarray \<Rightarrow> bool" where
  "c_contiguous a =
    (0 \<in> set (shape a) \<or> contig_from (itemsize (dtype a)) (rev (zip (shape a) (strides a))))"

definition f_contiguous :: "ndarray \<Rightarrow> bool" where
  "f_contiguous a =
    (0 \<in> set (shape a) \<or> contig_from (itemsize (dtype a)) (zip (shape a) (strides a)))"

text \<open>\<^verbatim>\<open>a.tolist()\<close> for arrays of one and of two axes.\<close>

definition tolist1 :: "ndarray \<Rightarrow> (exn + pyval) list" where
  "tolist1 a = map (\<lambda>i. getitem a [i]) [0..<shape a ! 0]"

definition tolist2 :: "ndarray \<Rightarrow> (exn + pyval) list list" where
  "tolist2 a = map (\<lambda>i. map (\<lambda>j. getitem a [i, j]) [0..<shape a ! 1]) [0..<shape a ! 0]"

text \<open>Lines 30 to 34: the array built in one pass of the inner loop.\<close>

definition make_data :: "ElementType \<Rightarrow> int \<Rightarrow> order \<Rightarrow> exn + ndarray" where
  "make_data t dims ord =
    (let data = np_arange 8 t
     in if dims = 2 then np_reshape data [4, 2] ord else Inr data)"

subsection \<open>The NPY file format written by \<^verbatim>\<open>np.save\<close> (line 38)\<close>

text \<open>Python's \<^verbatim>\<open>repr\<close> of a bool, of a tuple of integers and of a plain string.\<close>

definition repr_bool :: "bool \<Rightarrow> string" where
  "repr_bool b = (if b then ''True'' else ''False'')"

fun join_comma :: "string list \<Rightarrow> string" where
  "join_comma [] = []"
| "join_comma [x] = x"
| "join_comma (x # y # zs) = x @ '', '' @ join_comma (y # zs)"

definition repr_tuple :: "nat list \<Rightarrow> string" where
  "repr_tuple ns =
    (case ns of
       [] \<Rightarrow> ''()''
     | [n] \<Rightarrow> ''('' @ str_nat n @ '',)''
     | _ \<Rightarrow> ''('' @ join_comma (map str_nat ns) @ '')'')"

definition repr_str :: "string \<Rightarrow> string" where
  "repr_str s = [CHR 0x27] @ s @ [CHR 0x27]"

text \<open>
  The header's three entries: the shape, whether the data is written in
  column-major order, and the type string.
\<close>

definition fortran_order :: "ndarray \<Rightarrow> bool" where
  "fortran_order a = (if c_contiguous a then False else if f_contiguous a then True else False)"

definition header_dict :: "ndarray \<Rightarrow> string" where
  "header_dict a =
    ''{'' @ repr_str ''descr'' @ '': '' @ repr_str (dtype_dot_str (dtype a)) @ '', ''
    @ repr_str ''fortran_order'' @ '': '' @ repr_bool (fortran_order a) @ '', ''
    @ repr_str ''shape'' @ '': '' @ repr_tuple (shape a) @ '', ''
    @ ''}''"

text \<open>
  Spare room after the dictionary so that the growing axis can be rewritten in
  place (21 digits), then spaces and a newline up to a multiple of 64 bytes, the
  magic string, the version 1.0 and the two-byte header length included.
\<close>

definition growth_padding :: "ndarray \<Rightarrow> nat" where
  "growth_padding a =
    (if shape a = [] then 0
     else 21 - length (str_nat (if fortran_order a then last (shape a) else hd (shape a))))"

definition ascii :: "string \<Rightarrow> byte list" where
  "ascii s = map (\<lambda>c. of_nat (of_char c)) s"

definition npy_header :: "ndarray \<Rightarrow> byte list" where
  "npy_header a =
    (let header = header_dict a @ replicate (growth_padding a) CHR '' '';
         hlen = length header + 1;
         padlen = 64 - ((8 + 2 + hlen) mod 64)
     in [0x93] @ ascii ''NUMPY'' @ [1, 0] @ le_bytes 2 (hlen + padlen)
        @ ascii header @ ascii (replicate padlen CHR '' '') @ ascii [CHR 0x0A])"

text \<open>
  The element data: in column-major order when the array is contiguous in that
  order only, in row-major order otherwise.
\<close>

definition npy_payload :: "ndarray \<Rightarrow> byte list" where
  "npy_payload a =
    (if f_contiguous a \<and> \<not> c_contiguous a then tobytes a OrderF else tobytes a OrderC)"

definition npy_bytes :: "ndarray \<Rightarrow> byte list" where
  "npy_bytes a = npy_header a @ npy_payload a"

subsection \<open>The file system (lines 5-6 and 38)\<close>

text \<open>
  A path is its list of components, relative to the working directory, which is
  the empty path and always a directory. The file system maps the paths that
  exist to a directory or to a file with its bytes. What the operating system
  refuses for reasons outside this picture (permissions, a read-only or full
  disk, an I/O error) is an oracle \<open>env\<close>: for each path, the fault a \<^verbatim>\<open>mkdir\<close>
  or an \<^verbatim>\<open>open\<close> for writing meets there, if any.
\<close>

type_synonym path = "string list"

datatype node = Dir | File "byte list"

type_synonym fs = "path \<Rightarrow> node option"

datatype fault = EACCES | EROFS | ENOSPC | EIO

record env =
  mkdir_fault :: "path \<Rightarrow> fault option"
  open_fault :: "path \<Rightarrow> fault option"

fun exn_of_fault :: "fault \<Rightarrow> exn" where
  "exn_of_fault EACCES = PermissionError"
| "exn_of_fault EROFS = OSError"
| "exn_of_fault ENOSPC = OSError"
| "exn_of_fault EIO = OSError"

definition is_dir :: "fs \<Rightarrow> path \<Rightarrow> bool" where
  "is_dir fs p = (p = [] \<or> fs p = Some Dir)"

definition exists :: "fs \<Rightarrow> path \<Rightarrow> bool" where
  "exists fs p = (p = [] \<or> fs p \<noteq> None)"

text \<open>\<^verbatim>\<open>os.mkdir(p)\<close>.\<close>

definition os_mkdir :: "env \<Rightarrow> fs \<Rightarrow> path \<Rightarrow> exn + fs" where
  "os_mkdir e fs p =
    (case mkdir_fault e p of
       Some f \<Rightarrow> Inl (exn_of_fault f)
     | None \<Rightarrow>
         if exists fs p then Inl FileExistsError
         else if \<not> exists fs (butlast p) then Inl FileNotFoundError
         else if \<not> is_dir fs (butlast p) then Inl NotADirectoryError
         else Inr (fs(p \<mapsto> Dir)))"

text \<open>
  \<^verbatim>\<open>Path.mkdir(parents=False, exist_ok=...)\<close>: a \<^verbatim>\<open>FileNotFoundError\<close> is raised
  again; any other \<^verbatim>\<open>OSError\<close> is raised again unless \<^verbatim>\<open>exist_ok\<close> is set and the
  path is a directory.
\<close>

definition Path_mkdir :: "env \<Rightarrow> fs \<Rightarrow> path \<Rightarrow> bool \<Rightarrow> exn + fs" where
  "Path_mkdir e fs p exist_ok =
    (case os_mkdir e fs p of
       Inr fs' \<Rightarrow> Inr fs'
     | Inl x \<Rightarrow>
         if x = FileNotFoundError then Inl x
         else if \<not> exist_ok \<or> \<not> is_dir fs p then Inl x
         else Inr fs)"

text \<open>
  \<^verbatim>\<open>np.save(p, a)\<close> with a path that ends in \<^verbatim>\<open>.npy\<close>: the file is opened for
  writing, created or truncated, and receives the array's NPY bytes.
\<close>

definition np_save :: "env \<Rightarrow> fs \<Rightarrow> path \<Rightarrow> ndarray \<Rightarrow> exn + fs" where
  "np_save e fs p a =
    (case open_fault e p of
       Some f \<Rightarrow> Inl (exn_of_fault f)
     | None \<Rightarrow>
         if \<not> exists fs (butlast p) then Inl FileNotFoundError
         else if \<not> is_dir fs (butlast p) then Inl NotADirectoryError
         else if is_dir fs p then Inl IsADirectoryError
         else Inr (fs(p \<mapsto> File (npy_bytes a))))"

subsection \<open>The script\<close>

definition output_dir :: path where
  "output_dir = [''data'']"

text \<open>Line 37: \<^verbatim>\<open>output_dir / f"{dtype_str}_{ii}.npy"\<close>.\<close>

definition fname :: "string \<Rightarrow> int \<Rightarrow> path" where
  "fname s ii = output_dir @ [s @ ''_'' @ str_int ii @ ''.npy'']"

text \<open>
  The three loops of lines 24 to 39. Each returns the file system it leaves and
  the exception that ended it, if one did; the two inner loops also carry the
  counter \<^verbatim>\<open>ii\<close>. Nothing catches an exception, so the first one ends every loop.
\<close>

fun for_order ::
  "env \<Rightarrow> ElementType \<Rightarrow> string \<Rightarrow> int \<Rightarrow> order list \<Rightarrow> fs \<times> int \<Rightarrow> (fs \<times> int) \<times> exn option" where
  "for_order e t s dims [] st = (st, None)"
| "for_order e t s dims (ord # rest) (fs, ii) =
    (case make_data t dims ord of
       Inl x \<Rightarrow> ((fs, ii), Some x)
     | Inr data \<Rightarrow>
         (case np_save e fs (fname s ii) data of
            Inl x \<Rightarrow> ((fs, ii), Some x)
          | Inr fs' \<Rightarrow> for_order e t s dims rest (fs', ii + 1)))"

fun for_dims ::
  "env \<Rightarrow> ElementType \<Rightarrow> string \<Rightarrow> int list \<Rightarrow> fs \<times> int \<Rightarrow> (fs \<times> int) \<times> exn option" where
  "for_dims e t s [] st = (st, None)"
| "for_dims e t s (dims # rest) st =
    (case for_order e t s dims [OrderC, OrderF] st of
       (st', Some x) \<Rightarrow> (st', Some x)
     | (st', None) \<Rightarrow> for_dims e t s rest st')"

fun for_dtype :: "env \<Rightarrow> ElementType list \<Rightarrow> fs \<Rightarrow> fs \<times> exn option" where
  "for_dtype e [] fs = (fs, None)"
| "for_dtype e (t # rest) fs =
    (let ii = 1;
         s = dtype_str t
     in case for_dims e t s [1, 2] (fs, ii) of
          ((fs', _), Some x) \<Rightarrow> (fs', Some x)
        | ((fs', _), None) \<Rightarrow> for_dtype e rest fs')"

definition script :: "env \<Rightarrow> fs \<Rightarrow> fs \<times> exn option" where
  "script e fs =
    (case Path_mkdir e fs output_dir True of
       Inl x \<Rightarrow> (fs, Some x)
     | Inr fs1 \<Rightarrow> for_dtype e dtype_list fs1)"

text \<open>An operating system that refuses nothing.\<close>

definition no_faults :: env where
  "no_faults = \<lparr>mkdir_fault = (\<lambda>p. None), open_fault = (\<lambda>p. None)\<rparr>"

text \<open>
  Two that refuse something: every \<^verbatim>\<open>mkdir\<close> (permission denied), and only
  the opening of \<^verbatim>\<open>data/i1_3.npy\<close>.
\<close>

definition refuse_mkdir :: env where
  "refuse_mkdir = \<lparr>mkdir_fault = (\<lambda>p. Some EACCES), open_fault = (\<lambda>p. None)\<rparr>"

definition refuse_third :: env where
  "refuse_third =
    \<lparr>mkdir_fault = (\<lambda>p. None),
     open_fault = (\<lambda>p. if p = [''data'', ''i1_3.npy''] then Some EACCES else None)\<rparr>"

text \<open>\<^verbatim>\<open>a.ravel().tolist()\<close>: the elements in row-major index order.\<close>

definition ravel_tolist :: "ndarray \<Rightarrow> (exn + pyval) list" where
  "ravel_tolist a = map (getitem a) (indices_C (shape a))"

subsection \<open>The writes of a run\<close>

text \<open>
  The loops interleave three things: building the array, naming the file and
  saving it. For the proofs they are pulled apart. \<open>writes\<close> is the list of
  (path, array) pairs that lines 24 to 39 save, in order; it is built by three
  functions that follow the three loops and carry the counter as they do.
  \<open>write_all\<close> saves such a list until a save fails, and \<open>apply_writes\<close> is what
  the file system holds when every save went through. That the loops are
  \<open>write_all\<close> on \<open>writes\<close> is proved below (\<open>script_write_all\<close>).
\<close>

definition write_one :: "fs \<Rightarrow> path \<times> ndarray \<Rightarrow> fs" where
  "write_one f w = f(fst w \<mapsto> File (npy_bytes (snd w)))"

definition apply_writes :: "fs \<Rightarrow> (path \<times> ndarray) list \<Rightarrow> fs" where
  "apply_writes f ws = foldl write_one f ws"

fun write_all :: "env \<Rightarrow> fs \<Rightarrow> (path \<times> ndarray) list \<Rightarrow> fs \<times> exn option" where
  "write_all e fs [] = (fs, None)"
| "write_all e fs (w # ws) =
    (case np_save e fs (fst w) (snd w) of
       Inl x \<Rightarrow> (fs, Some x)
     | Inr fs' \<Rightarrow> write_all e fs' ws)"

fun order_writes :: "ElementType \<Rightarrow> string \<Rightarrow> int \<Rightarrow> order list \<Rightarrow> int \<Rightarrow> (path \<times> ndarray) list" where
  "order_writes t s dims [] ii = []"
| "order_writes t s dims (ord # rest) ii =
    (fname s ii, projr (make_data t dims ord)) # order_writes t s dims rest (ii + 1)"

fun dims_writes :: "ElementType \<Rightarrow> string \<Rightarrow> int list \<Rightarrow> int \<Rightarrow> (path \<times> ndarray) list" where
  "dims_writes t s [] ii = []"
| "dims_writes t s (dims # rest) ii =
    order_writes t s dims [OrderC, OrderF] ii @ dims_writes t s rest (ii + 2)"

fun dtype_writes :: "ElementType list \<Rightarrow> (path \<times> ndarray) list" where
  "dtype_writes [] = []"
| "dtype_writes (t # rest) = dims_writes t (dtype_str t) [1, 2] 1 @ dtype_writes rest"

definition writes :: "(path \<times> ndarray) list" where
  "writes = dtype_writes dtype_list"

section \<open>Evaluation on numerals\<close>

text \<open>
  The recursive functions above are unfolded by the simplifier one numeral at a
  time; their defining equations alone would unfold without end.
\<close>

lemma le_bytes_numeral:
  "le_bytes (numeral k) v = of_nat (v mod 256) # le_bytes (pred_numeral k) (v div 256)"
  by (metis le_bytes.simps(2) numeral_eq_Suc)

lemma bit_length_numeral: "bit_length (numeral k) = Suc (bit_length (numeral k div 2))"
  by (subst bit_length.simps) simp

lemma bit_length_0: "bit_length 0 = 0"
  by (subst bit_length.simps) simp

lemma bit_length_1: "bit_length (Suc 0) = Suc 0"
  by (subst bit_length.simps) (simp add: bit_length_0)

lemma upt_8: "[0..<8] = [0, 1, 2, 3, 4, 5, 6, 7]"
  by (simp add: upt_rec)

lemma upt_4: "[0..<4] = [0, 1, 2, 3]"
  by (simp add: upt_rec)

lemma upt_2: "[0..<2] = [0, 1]"
  by (simp add: upt_rec)

lemmas eval_scalar =
  le_bytes_numeral bit_length_numeral bit_length_0 bit_length_1
  float_bits_def float_val_def pow2_def Let_def encode_def decode_def whole_def

lemmas eval_array =
  np_arange_def np_reshape_def make_data_def tolist1_def tolist2_def getitem_def
  element_bytes_def offset_def tobytes_def indices_def indices_F_def strides_for_def
  f_strides_def upt_8 upt_4 upt_2

lemma str_nat_numeral:
  "str_nat (numeral k) =
    (if (numeral k :: nat) < 10 then [digit_char (numeral k)]
     else str_nat (numeral k div 10) @ [digit_char (numeral k mod 10)])"
  by (rule str_nat.simps)

lemma str_nat_0: "str_nat 0 = ''0''"
  by (subst str_nat.simps) (simp add: digit_char_def)

lemma str_nat_1: "str_nat (Suc 0) = ''1''"
  by (subst str_nat.simps) (simp add: digit_char_def)

lemmas eval_name =
  str_nat_numeral str_nat_0 str_nat_1 digit_char_def str_int_def
  dtype_str_def dtype_dot_str_def byteorder_def fname_def output_dir_def

lemmas eval_npy = c_contiguous_def f_contiguous_def fortran_order_def npy_payload_def

section \<open>The loops save the list of writes\<close>

lemma make_data_Inr: "make_data t dims ord = Inr (projr (make_data t dims ord))"
  by (simp add: make_data_def np_reshape_def np_arange_def Let_def)

lemma write_all_append:
  "write_all e fs (xs @ ys) =
    (case write_all e fs xs of (fs', None) \<Rightarrow> write_all e fs' ys | (fs', Some x) \<Rightarrow> (fs', Some x))"
  by (induction xs arbitrary: fs) (auto split: sum.splits)

lemma for_order_write_all:
  "for_order e t s dims os (fs, ii) = ((fs', ii'), r) \<Longrightarrow>
    write_all e fs (order_writes t s dims os ii) = (fs', r)
    \<and> (r = None \<longrightarrow> ii' = ii + int (length os))"
proof (induction os arbitrary: fs ii)
  case Nil
  then show ?case by simp
next
  case (Cons ord rest)
  obtain a where a: "make_data t dims ord = Inr a" "projr (make_data t dims ord) = a"
    using make_data_Inr [of t dims ord] by simp
  show ?case
  proof (cases "np_save e fs (fname s ii) a")
    case (Inl x)
    with Cons.prems a show ?thesis by auto
  next
    case (Inr fs1)
    with Cons.prems a have "for_order e t s dims rest (fs1, ii + 1) = ((fs', ii'), r)"
      by simp
    from Cons.IH [OF this] Inr a show ?thesis by simp
  qed
qed

lemma for_dims_write_all:
  "for_dims e t s ds (fs, ii) = ((fs', ii'), r) \<Longrightarrow>
    write_all e fs (dims_writes t s ds ii) = (fs', r)
    \<and> (r = None \<longrightarrow> ii' = ii + 2 * int (length ds))"
proof (induction ds arbitrary: fs ii)
  case Nil
  then show ?case by simp
next
  case (Cons dims rest)
  obtain fs1 ii1 r1 where o: "for_order e t s dims [OrderC, OrderF] (fs, ii) = ((fs1, ii1), r1)"
    by (metis surj_pair)
  note w = for_order_write_all [OF o]
  show ?case
  proof (cases r1)
    case None
    with w have ii1: "ii1 = ii + 2" by simp
    from Cons.prems o None have "for_dims e t s rest (fs1, ii1) = ((fs', ii'), r)"
      by simp
    from Cons.IH [OF this] w None ii1 show ?thesis
      by (simp add: write_all_append del: order_writes.simps write_all.simps)
  next
    case (Some x)
    with Cons.prems o have "fs' = fs1" "r = Some x" by simp_all
    with w Some show ?thesis
      by (simp add: write_all_append del: order_writes.simps write_all.simps)
  qed
qed

lemma for_dtype_write_all: "for_dtype e ts fs = write_all e fs (dtype_writes ts)"
proof (induction ts arbitrary: fs)
  case Nil
  then show ?case by simp
next
  case (Cons t rest)
  obtain fs1 ii1 r1 where d: "for_dims e t (dtype_str t) [1, 2] (fs, 1) = ((fs1, ii1), r1)"
    by (metis surj_pair)
  note w = for_dims_write_all [OF d]
  show ?case
  proof (cases r1)
    case None
    with d w Cons.IH show ?thesis
      by (simp add: write_all_append del: dims_writes.simps write_all.simps)
  next
    case (Some x)
    with d w show ?thesis
      by (simp add: write_all_append del: dims_writes.simps write_all.simps)
  qed
qed

lemma script_write_all:
  "script e fs =
    (case Path_mkdir e fs output_dir True of
       Inl x \<Rightarrow> (fs, Some x)
     | Inr fs1 \<Rightarrow> write_all e fs1 writes)"
  by (simp add: script_def writes_def for_dtype_write_all split: sum.splits)

lemma np_save_Inr: "np_save e fs p a = Inr fs' \<Longrightarrow> fs' = fs(p \<mapsto> File (npy_bytes a))"
  by (auto simp: np_save_def split: option.splits if_splits)

text \<open>The 48 writes, with their file names worked out.\<close>

lemma writes_eval:
  "writes =
    [([''data'', ''i1_1.npy''], projr (make_data np_int8 1 OrderC)),
     ([''data'', ''i1_2.npy''], projr (make_data np_int8 1 OrderF)),
     ([''data'', ''i1_3.npy''], projr (make_data np_int8 2 OrderC)),
     ([''data'', ''i1_4.npy''], projr (make_data np_int8 2 OrderF)),
     ([''data'', ''i2_1.npy''], projr (make_data np_int16 1 OrderC)),
     ([''data'', ''i2_2.npy''], projr (make_data np_int16 1 OrderF)),
     ([''data'', ''i2_3.npy''], projr (make_data np_int16 2 OrderC)),
     ([''data'', ''i2_4.npy''], projr (make_data np_int16 2 OrderF)),
     ([''data'', ''i4_1.npy''], projr (make_data np_int32 1 OrderC)),
     ([''data'', ''i4_2.npy''], projr (make_data np_int32 1 OrderF)),
     ([''data'', ''i4_3.npy''], projr (make_data np_int32 2 OrderC)),
     ([''data'', ''i4_4.npy''], projr (make_data np_int32 2 OrderF)),
     ([''data'', ''i8_1.npy''], projr (make_data np_int64 1 OrderC)),
     ([''data'', ''i8_2.npy''], projr (make_data np_int64 1 OrderF)),
     ([''data'', ''i8_3.npy''], projr (make_data np_int64 2 OrderC)),
     ([''data'', ''i8_4.npy''], projr (make_data np_int64 2 OrderF)),
     ([''data'', ''u1_1.npy''], projr (make_data np_uint8 1 OrderC)),
     ([''data'', ''u1_2.npy''], projr (make_data np_uint8 1 OrderF)),
     ([''data'', ''u1_3.npy''], projr (make_data np_uint8 2 OrderC)),
     ([''data'', ''u1_4.npy''], projr (make_data np_uint8 2 OrderF)),
     ([''data'', ''u2_1.npy''], projr (make_data np_uint16 1 OrderC)),
     ([''data'', ''u2_2.npy''], projr (make_data np_uint16 1 OrderF)),
     ([''data'', ''u2_3.npy''], projr (make_data np_uint16 2 OrderC)),
     ([''data'', ''u2_4.npy''], projr (make_data np_uint16 2 OrderF)),
     ([''data'', ''u4_1.npy''], projr (make_data np_uint32 1 OrderC)),
     ([''data'', ''u4_2.npy''], projr (make_data np_uint32 1 OrderF)),
     ([''data'', ''u4_3.npy''], projr (make_data np_uint32 2 OrderC)),
     ([''data'', ''u4_4.npy''], projr (make_data np_uint32 2 OrderF)),
     ([''data'', ''u8_1.npy''], projr (make_data np_uint64 1 OrderC)),
     ([''data'', ''u8_2.npy''], projr (make_data np_uint64 1 OrderF)),
     ([''data'', ''u8_3.npy''], projr (make_data np_uint64 2 OrderC)),
     ([''data'', ''u8_4.npy''], projr (make_data np_uint64 2 OrderF)),
     ([''data'', ''f4_1.npy''], projr (make_data np_float32 1 OrderC)),
     ([''data'', ''f4_2.npy''], projr (make_data np_float32 1 OrderF)),
     ([''data'', ''f4_3.npy''], projr (make_data np_float32 2 OrderC)),
     ([''data'', ''f4_4.npy''], projr (make_data np_float32 2 OrderF)),
     ([''data'', ''f8_1.npy''], projr (make_data np_float64 1 OrderC)),
     ([''data'', ''f8_2.npy''], projr (make_data np_float64 1 OrderF)),
     ([''data'', ''f8_3.npy''], projr (make_data np_float64 2 OrderC)),
     ([''data'', ''f8_4.npy''], projr (make_data np_float64 2 OrderF)),
     ([''data'', ''c8_1.npy''], projr (make_data np_complex64 1 OrderC)),
     ([''data'', ''c8_2.npy''], projr (make_data np_complex64 1 OrderF)),
     ([''data'', ''c8_3.npy''], projr (make_data np_complex64 2 OrderC)),
     ([''data'', ''c8_4.npy''], projr (make_data np_complex64 2 OrderF)),
     ([''data'', ''c16_1.npy''], projr (make_data np_complex128 1 OrderC)),
     ([''data'', ''c16_2.npy''], projr (make_data np_complex128 1 OrderF)),
     ([''data'', ''c16_3.npy''], projr (make_data np_complex128 2 OrderC)),
     ([''data'', ''c16_4.npy''], projr (make_data np_complex128 2 OrderF))]"
  by (simp add: writes_def dtype_list_def eval_name)

section \<open>Saving a list of writes\<close>

lemma np_save_Inl_or_write:
  "np_save e fs p a = Inr fs' \<Longrightarrow> open_fault e p = None"
  by (auto simp: np_save_def split: option.splits if_splits)

lemma write_all_outcome:
  "write_all e fs ws = (fs', r) \<Longrightarrow>
    \<exists>n. n \<le> length ws \<and> fs' = apply_writes fs (take n ws)
      \<and> (r = None \<longrightarrow> n = length ws)
      \<and> (\<forall>x. r = Some x \<longrightarrow>
            n < length ws \<and> np_save e fs' (fst (ws ! n)) (snd (ws ! n)) = Inl x)"
proof (induction ws arbitrary: fs)
  case Nil
  then show ?case by (simp add: apply_writes_def)
next
  case (Cons w ws)
  show ?case
  proof (cases "np_save e fs (fst w) (snd w)")
    case (Inl x)
    with Cons.prems have "fs' = fs" "r = Some x" by simp_all
    with Inl have "0 \<le> length (w # ws) \<and> fs' = apply_writes fs (take 0 (w # ws))
      \<and> (r = None \<longrightarrow> 0 = length (w # ws))
      \<and> (\<forall>x. r = Some x \<longrightarrow>
            0 < length (w # ws) \<and> np_save e fs' (fst ((w # ws) ! 0)) (snd ((w # ws) ! 0)) = Inl x)"
      by (simp add: apply_writes_def)
    then show ?thesis by blast
  next
    case (Inr fs1)
    with Cons.prems have "write_all e fs1 ws = (fs', r)" by simp
    from Cons.IH [OF this] obtain n where n: "n \<le> length ws" "fs' = apply_writes fs1 (take n ws)"
      "r = None \<longrightarrow> n = length ws"
      "\<forall>x. r = Some x \<longrightarrow> n < length ws \<and> np_save e fs' (fst (ws ! n)) (snd (ws ! n)) = Inl x"
      by blast
    from np_save_Inr [OF Inr] have "fs1 = write_one fs w" by (simp add: write_one_def)
    with n have "Suc n \<le> length (w # ws) \<and> fs' = apply_writes fs (take (Suc n) (w # ws))
      \<and> (r = None \<longrightarrow> Suc n = length (w # ws))
      \<and> (\<forall>x. r = Some x \<longrightarrow>
            Suc n < length (w # ws)
            \<and> np_save e fs' (fst ((w # ws) ! Suc n)) (snd ((w # ws) ! Suc n)) = Inl x)"
      by (simp add: apply_writes_def)
    then show ?thesis by blast
  qed
qed

lemma write_all_None: "write_all e fs ws = (fs', None) \<Longrightarrow> fs' = apply_writes fs ws"
  using write_all_outcome [of e fs ws fs' None] by auto

lemma write_all_None_faults:
  "write_all e fs ws = (fs', None) \<Longrightarrow> w \<in> set ws \<Longrightarrow> open_fault e (fst w) = None"
proof (induction ws arbitrary: fs)
  case Nil
  then show ?case by simp
next
  case (Cons v ws)
  then obtain fs1 where s: "np_save e fs (fst v) (snd v) = Inr fs1" "write_all e fs1 ws = (fs', None)"
    by (auto split: sum.splits)
  from Cons.prems(2) consider "w = v" | "w \<in> set ws" by auto
  then show ?case
  proof cases
    case 1
    with s(1) show ?thesis by (simp add: np_save_Inl_or_write)
  next
    case 2
    with Cons.IH s(2) show ?thesis by blast
  qed
qed

lemma apply_writes_Cons: "apply_writes f (w # ws) = apply_writes (write_one f w) ws"
  by (simp add: apply_writes_def)

lemma apply_writes_other: "p \<notin> fst ` set ws \<Longrightarrow> apply_writes f ws p = f p"
proof (induction ws arbitrary: f)
  case Nil
  then show ?case by (simp add: apply_writes_def)
next
  case (Cons w ws)
  then show ?case by (simp add: apply_writes_Cons write_one_def)
qed

lemma apply_writes_in: "p \<in> fst ` set ws \<Longrightarrow> \<exists>a. apply_writes f ws p = Some (File (npy_bytes a))"
proof (induction ws arbitrary: f)
  case Nil
  then show ?case by simp
next
  case (Cons w ws)
  show ?case
  proof (cases "p \<in> fst ` set ws")
    case True
    with Cons.IH show ?thesis by (simp add: apply_writes_Cons)
  next
    case False
    with Cons.prems have "p = fst w" by auto
    with False show ?thesis
      by (auto simp: apply_writes_Cons apply_writes_other write_one_def)
  qed
qed

lemma apply_writes_map_add:
  "apply_writes f ws = f ++ map_of (rev (map (\<lambda>w. (fst w, File (npy_bytes (snd w)))) ws))"
proof (induction ws arbitrary: f)
  case Nil
  then show ?case by (simp add: apply_writes_def)
next
  case (Cons w ws)
  have "write_one f w = f ++ map_of [(fst w, File (npy_bytes (snd w)))]"
    by (simp add: write_one_def)
  with Cons show ?case
    by (simp add: apply_writes_Cons del: map_add_upd map_of.simps)
qed

lemma map_add_twice: "(f ++ m) ++ m = f ++ m"
  by (rule ext) (simp add: map_add_def split: option.splits)

lemma apply_writes_idem: "apply_writes (apply_writes f ws) ws = apply_writes f ws"
  by (simp add: apply_writes_map_add map_add_twice)

lemma is_dir_exists: "is_dir fs p \<Longrightarrow> exists fs p"
  by (auto simp: is_dir_def exists_def)

lemma write_all_ok:
  assumes "\<forall>w\<in>set ws. open_fault e (fst w) = None \<and> butlast (fst w) = d \<and> fst w \<noteq> d"
    and "is_dir fs d"
    and "\<forall>w\<in>set ws. \<not> is_dir fs (fst w)"
  shows "write_all e fs ws = (apply_writes fs ws, None)"
  using assms
proof (induction ws arbitrary: fs)
  case Nil
  then show ?case by (simp add: apply_writes_def)
next
  case (Cons w ws)
  from Cons.prems have s: "np_save e fs (fst w) (snd w) = Inr (write_one fs w)"
    by (simp add: np_save_def write_one_def is_dir_exists)
  have d: "is_dir (write_one fs w) d"
    using Cons.prems by (auto simp: is_dir_def write_one_def)
  have n: "\<forall>v\<in>set ws. \<not> is_dir (write_one fs w) (fst v)"
    using Cons.prems by (auto simp: is_dir_def write_one_def)
  from Cons.prems have "\<forall>w\<in>set ws. open_fault e (fst w) = None \<and> butlast (fst w) = d \<and> fst w \<noteq> d"
    by simp
  from Cons.IH [OF this d n] s show ?case
    by (simp add: apply_writes_Cons)
qed

lemma exn_of_fault_not_found: "exn_of_fault f \<noteq> FileNotFoundError"
  by (cases f) simp_all

lemma Path_mkdir_is_dir: "is_dir fs p \<Longrightarrow> Path_mkdir e fs p True = Inr fs"
  by (auto simp: Path_mkdir_def os_mkdir_def is_dir_exists exn_of_fault_not_found
      split: option.splits)

lemma Path_mkdir_fresh:
  "\<not> exists fs output_dir \<Longrightarrow> mkdir_fault e output_dir = None \<Longrightarrow>
    Path_mkdir e fs output_dir True = Inr (fs(output_dir \<mapsto> Dir))"
  by (simp add: Path_mkdir_def os_mkdir_def output_dir_def exists_def is_dir_def)

lemma Path_mkdir_Inr:
  "Path_mkdir e fs p True = Inr fs1 \<Longrightarrow>
    is_dir fs1 p \<and> (fs1 = fs \<or> fs1 = fs(p \<mapsto> Dir))"
  by (auto simp: Path_mkdir_def os_mkdir_def is_dir_def split: option.splits sum.splits if_splits)

lemma Path_mkdir_Inl:
  "Path_mkdir e fs output_dir True = Inl x \<Longrightarrow>
    \<not> is_dir fs output_dir
    \<and> ((\<exists>f. mkdir_fault e output_dir = Some f \<and> x = exn_of_fault f)
       \<or> (mkdir_fault e output_dir = None \<and> exists fs output_dir \<and> x = FileExistsError))"
  by (auto simp: Path_mkdir_def os_mkdir_def output_dir_def exists_def is_dir_def
      exn_of_fault_not_found split: option.splits sum.splits if_splits)

lemma writes_all_in_output_dir:
  "list_all (\<lambda>w. butlast (fst w) = output_dir \<and> fst w \<noteq> output_dir \<and> fst w \<noteq> []) writes"
  unfolding writes_eval by (simp add: output_dir_def)

lemma writes_in_output_dir:
  "w \<in> set writes \<Longrightarrow> butlast (fst w) = output_dir \<and> fst w \<noteq> output_dir \<and> fst w \<noteq> []"
  using writes_all_in_output_dir by (simp add: list_all_iff)

lemma output_dir_not_written: "output_dir \<notin> fst ` set writes"
  using writes_in_output_dir by force

lemma length_writes: "length writes = 48"
  unfolding writes_eval by simp

lemma script_None:
  assumes "script e fs = (fs', None)"
  obtains fs1 where "Path_mkdir e fs output_dir True = Inr fs1"
    and "write_all e fs1 writes = (fs', None)" and "fs' = apply_writes fs1 writes"
    and "is_dir fs' output_dir"
proof -
  from assms obtain fs1 where m: "Path_mkdir e fs output_dir True = Inr fs1"
    and w: "write_all e fs1 writes = (fs', None)"
    by (auto simp: script_write_all split: sum.splits)
  from w have a: "fs' = apply_writes fs1 writes" by (rule write_all_None)
  from Path_mkdir_Inr [OF m] have "is_dir fs1 output_dir" by simp
  then have "is_dir fs' output_dir"
    by (simp add: a is_dir_def apply_writes_other output_dir_not_written)
  with m w a that show thesis by blast
qed

lemma script_ok:
  assumes "Path_mkdir e fs output_dir True = Inr fs1"
    and "\<forall>w\<in>set writes. open_fault e (fst w) = None"
    and "\<forall>w\<in>set writes. \<not> is_dir fs1 (fst w)"
  shows "script e fs = (apply_writes fs1 writes, None)"
proof -
  from Path_mkdir_Inr [OF assms(1)] have "is_dir fs1 output_dir" by simp
  with assms(2,3) writes_in_output_dir
  have "write_all e fs1 writes = (apply_writes fs1 writes, None)"
    by (intro write_all_ok [where d = output_dir]) auto
  with assms(1) show ?thesis by (simp add: script_write_all)
qed

lemma script_again:
  assumes "script e fs = (fs1, None)"
  shows "script e fs1 = (fs1, None)"
proof -
  from assms obtain fs0 where w: "write_all e fs0 writes = (fs1, None)"
    and a: "fs1 = apply_writes fs0 writes" and d: "is_dir fs1 output_dir"
    by (rule script_None)
  have m: "Path_mkdir e fs1 output_dir True = Inr fs1"
    using d by (rule Path_mkdir_is_dir)
  have f: "\<forall>w\<in>set writes. open_fault e (fst w) = None"
    using write_all_None_faults [OF w] by blast
  have n: "\<forall>w\<in>set writes. \<not> is_dir fs1 (fst w)"
  proof
    fix w assume w: "w \<in> set writes"
    then have "fst w \<in> fst ` set writes" by simp
    from apply_writes_in [OF this, of fs0] a obtain b where "fs1 (fst w) = Some (File (npy_bytes b))"
      by auto
    with writes_in_output_dir [OF w] show "\<not> is_dir fs1 (fst w)"
      by (simp add: is_dir_def)
  qed
  from script_ok [OF m f n] show ?thesis
    by (simp add: a apply_writes_idem)
qed

lemma script_rerun_same:
  assumes "script e fs = (fs1, None)" and "script e' fs1 = (fs2, None)"
  shows "fs2 = fs1"
proof -
  from assms(1) obtain fs0 where a: "fs1 = apply_writes fs0 writes" and d: "is_dir fs1 output_dir"
    by (rule script_None)
  have m: "Path_mkdir e' fs1 output_dir True = Inr fs1"
    using d by (rule Path_mkdir_is_dir)
  from assms(2) obtain g where "Path_mkdir e' fs1 output_dir True = Inr g"
    and "fs2 = apply_writes g writes"
    by (rule script_None)
  with m have "fs2 = apply_writes fs1 writes" by simp
  then show ?thesis by (simp add: a apply_writes_idem)
qed

lemma script_no_faults_empty:
  "script no_faults Map.empty = (apply_writes (Map.empty(output_dir \<mapsto> Dir)) writes, None)"
proof (rule script_ok)
  show "Path_mkdir no_faults Map.empty output_dir True = Inr (Map.empty(output_dir \<mapsto> Dir))"
    by (rule Path_mkdir_fresh) (simp_all add: exists_def output_dir_def no_faults_def)
  show "\<forall>w\<in>set writes. open_fault no_faults (fst w) = None"
    by (simp add: no_faults_def)
  show "\<forall>w\<in>set writes. \<not> is_dir (Map.empty(output_dir \<mapsto> Dir)) (fst w)"
    using writes_in_output_dir by (auto simp: is_dir_def)
qed

text \<open>What a run that ends without an exception leaves in the four files of a type.\<close>

lemma script_files:
  assumes "script e fs = (fs', None)"
  shows "fs' (fname (dtype_str t) 1) = Some (File (npy_bytes (projr (make_data t 1 OrderC))))"
    and "fs' (fname (dtype_str t) 2) = Some (File (npy_bytes (projr (make_data t 1 OrderF))))"
    and "fs' (fname (dtype_str t) 3) = Some (File (npy_bytes (projr (make_data t 2 OrderC))))"
    and "fs' (fname (dtype_str t) 4) = Some (File (npy_bytes (projr (make_data t 2 OrderF))))"
proof -
  from assms obtain fs1 where fs': "fs' = apply_writes fs1 writes"
    by (rule script_None)
  show "fs' (fname (dtype_str t) 1) = Some (File (npy_bytes (projr (make_data t 1 OrderC))))"
    unfolding fs' writes_eval by (cases t) (simp_all add: apply_writes_def write_one_def eval_name)
  show "fs' (fname (dtype_str t) 2) = Some (File (npy_bytes (projr (make_data t 1 OrderF))))"
    unfolding fs' writes_eval by (cases t) (simp_all add: apply_writes_def write_one_def eval_name)
  show "fs' (fname (dtype_str t) 3) = Some (File (npy_bytes (projr (make_data t 2 OrderC))))"
    unfolding fs' writes_eval by (cases t) (simp_all add: apply_writes_def write_one_def eval_name)
  show "fs' (fname (dtype_str t) 4) = Some (File (npy_bytes (projr (make_data t 2 OrderF))))"
    unfolding fs' writes_eval by (cases t) (simp_all add: apply_writes_def write_one_def eval_name)
qed

section \<open>The arrays the script builds\<close>

text \<open>
  Claim C4. For every element type and both layouts, the array of a \<^verbatim>\<open>dims = 1\<close>
  pass is \<^verbatim>\<open>np.arange(8, dtype)\<close> itself: one axis of length 8 whose elements, in
  order, are 0, 1, ..., 7 in that type. The layout is not looked at, so the
  row-major and the column-major pass build the same array.
\<close>

theorem dims1_array_ignores_layout:
  "make_data t 1 ord = Inr (np_arange 8 t)
   \<and> make_data t 1 OrderC = make_data t 1 OrderF
   \<and> shape (np_arange 8 t) = [8]
   \<and> length (tolist1 (np_arange 8 t)) = 8
   \<and> tolist1 (np_arange 8 t) = map (\<lambda>k. Inr (whole t k)) [0, 1, 2, 3, 4, 5, 6, 7]"
  by (cases t) (simp_all add: eval_scalar eval_array)

text \<open>
  Claim C3. For every element type, the \<^verbatim>\<open>dims = 2\<close> array built with row-major
  order has the shape (4, 2) and the rows [0, 1], [2, 3], [4, 5], [6, 7]: the
  value \<open>k\<close> sits at position (k div 2, k mod 2). Built with column-major order
  it has the columns [0, 1, 2, 3] and [4, 5, 6, 7], that is the rows [0, 4],
  [1, 5], [2, 6], [3, 7]: the value \<open>k\<close> sits at position (k mod 4, k div 4).
\<close>

theorem dims2_array_positions:
  "(\<exists>a. make_data t 2 OrderC = Inr a \<and> shape a = [4, 2]
      \<and> tolist2 a = map (map (\<lambda>k. Inr (whole t k))) [[0, 1], [2, 3], [4, 5], [6, 7]]
      \<and> map (\<lambda>k. getitem a [k div 2, k mod 2]) [0, 1, 2, 3, 4, 5, 6, 7]
        = map (\<lambda>k. Inr (whole t k)) [0, 1, 2, 3, 4, 5, 6, 7])
   \<and> (\<exists>a. make_data t 2 OrderF = Inr a \<and> shape a = [4, 2]
      \<and> map (\<lambda>j. map (\<lambda>i. getitem a [i, j]) [0, 1, 2, 3]) [0, 1]
        = map (map (\<lambda>k. Inr (whole t k))) [[0, 1, 2, 3], [4, 5, 6, 7]]
      \<and> tolist2 a = map (map (\<lambda>k. Inr (whole t k))) [[0, 4], [1, 5], [2, 6], [3, 7]]
      \<and> map (\<lambda>k. getitem a [k mod 4, k div 4]) [0, 1, 2, 3, 4, 5, 6, 7]
        = map (\<lambda>k. Inr (whole t k)) [0, 1, 2, 3, 4, 5, 6, 7])"
  by (cases t) (simp_all add: eval_scalar eval_array)

text \<open>The elements of the three arrays, read in row-major index order.\<close>

lemma ravel_arange:
  "ravel_tolist (np_arange 8 t) = map (\<lambda>k. Inr (whole t k)) [0, 1, 2, 3, 4, 5, 6, 7]"
  by (cases t) (simp_all add: eval_scalar eval_array ravel_tolist_def)

lemma ravel_reshape_C:
  "\<exists>a. np_reshape (np_arange 8 t) [4, 2] OrderC = Inr a
     \<and> ravel_tolist a = map (\<lambda>k. Inr (whole t k)) [0, 1, 2, 3, 4, 5, 6, 7]"
  by (cases t) (simp_all add: eval_scalar eval_array ravel_tolist_def)

lemma ravel_reshape_F:
  "\<exists>a. np_reshape (np_arange 8 t) [4, 2] OrderF = Inr a
     \<and> ravel_tolist a = map (\<lambda>k. Inr (whole t k)) [0, 4, 1, 5, 2, 6, 3, 7]"
  by (cases t) (simp_all add: eval_scalar eval_array ravel_tolist_def)

lemma whole_inj: "whole t j = whole t k \<Longrightarrow> j = k"
  by (cases t) (simp_all add: whole_def)

lemma ravel_reshape:
  "\<exists>a. np_reshape (np_arange 8 t) [4, 2] ord = Inr a
     \<and> set (ravel_tolist a) = (\<lambda>k. Inr (whole t k)) ` {0, 1, 2, 3, 4, 5, 6, 7}
     \<and> length (ravel_tolist a) = 8 \<and> distinct (ravel_tolist a)"
proof (cases ord)
  case OrderC
  from ravel_reshape_C [of t] obtain a where "np_reshape (np_arange 8 t) [4, 2] OrderC = Inr a"
    "ravel_tolist a = map (\<lambda>k. Inr (whole t k)) [0, 1, 2, 3, 4, 5, 6, 7]" by blast
  with OrderC show ?thesis by (auto dest: whole_inj)
next
  case OrderF
  from ravel_reshape_F [of t] obtain a where "np_reshape (np_arange 8 t) [4, 2] OrderF = Inr a"
    "ravel_tolist a = map (\<lambda>k. Inr (whole t k)) [0, 4, 1, 5, 2, 6, 3, 7]" by blast
  with OrderF show ?thesis by (auto dest: whole_inj)
qed

text \<open>
  Claim C5. For every element type, every \<^verbatim>\<open>dims\<close> and both layouts, the values
  in the array the pass builds are, position aside, exactly 0, 1, ..., 7 (each
  once: eight elements, all different). The reshape keeps the values of the
  array it is given.
\<close>

theorem values_present:
  "(\<exists>a. make_data t dims ord = Inr a
      \<and> set (ravel_tolist a) = (\<lambda>k. Inr (whole t k)) ` {0, 1, 2, 3, 4, 5, 6, 7}
      \<and> length (ravel_tolist a) = 8 \<and> distinct (ravel_tolist a))
   \<and> (\<exists>b. np_reshape (np_arange 8 t) [4, 2] ord = Inr b
      \<and> set (ravel_tolist b) = set (ravel_tolist (np_arange 8 t)))"
proof -
  have flat: "set (ravel_tolist (np_arange 8 t)) = (\<lambda>k. Inr (whole t k)) ` {0, 1, 2, 3, 4, 5, 6, 7}"
    "length (ravel_tolist (np_arange 8 t)) = 8" "distinct (ravel_tolist (np_arange 8 t))"
    by (auto simp: ravel_arange dest: whole_inj)
  from ravel_reshape [of t ord] obtain b where b: "np_reshape (np_arange 8 t) [4, 2] ord = Inr b"
    "set (ravel_tolist b) = (\<lambda>k. Inr (whole t k)) ` {0, 1, 2, 3, 4, 5, 6, 7}"
    "length (ravel_tolist b) = 8" "distinct (ravel_tolist b)" by blast
  have "\<exists>a. make_data t dims ord = Inr a
      \<and> set (ravel_tolist a) = (\<lambda>k. Inr (whole t k)) ` {0, 1, 2, 3, 4, 5, 6, 7}
      \<and> length (ravel_tolist a) = 8 \<and> distinct (ravel_tolist a)"
  proof (cases "dims = 2")
    case True
    with b show ?thesis by (simp add: make_data_def)
  next
    case False
    with flat show ?thesis by (simp add: make_data_def)
  qed
  moreover have "\<exists>b. np_reshape (np_arange 8 t) [4, 2] ord = Inr b
      \<and> set (ravel_tolist b) = set (ravel_tolist (np_arange 8 t))"
    using b flat by simp
  ultimately show ?thesis by (rule conjI)
qed

text \<open>
  Claim C8. For every element type, \<^verbatim>\<open>np.arange(8, dtype)\<close> is a one-axis array of
  that type holding eight elements of \<^verbatim>\<open>itemsize\<close> bytes each, which read back as
  0, 1, ..., 7; for the two complex types every element reads back with the
  imaginary part 0. Storing is lossless: decoding the stored bytes of each of 0
  to 7 gives that number back, and the eight stored values are all different.
\<close>

theorem arange_values_exact:
  "dtype (np_arange 8 t) = t \<and> shape (np_arange 8 t) = [8]
   \<and> length (buffer (np_arange 8 t)) = 8 * itemsize t
   \<and> tolist1 (np_arange 8 t) = map (\<lambda>k. Inr (whole t k)) [0, 1, 2, 3, 4, 5, 6, 7]
   \<and> tolist1 (np_arange 8 np_complex64)
     = map (\<lambda>k. Inr (PyComplex (Finite (of_nat k)) (Finite 0))) [0, 1, 2, 3, 4, 5, 6, 7]
   \<and> tolist1 (np_arange 8 np_complex128)
     = map (\<lambda>k. Inr (PyComplex (Finite (of_nat k)) (Finite 0))) [0, 1, 2, 3, 4, 5, 6, 7]
   \<and> map (decode t) (map (encode t) [0, 1, 2, 3, 4, 5, 6, 7])
     = map (whole t) [0, 1, 2, 3, 4, 5, 6, 7]
   \<and> distinct (map (whole t) [0, 1, 2, 3, 4, 5, 6, 7])"
  by (cases t) (simp_all add: eval_scalar eval_array)

section \<open>The files a run leaves\<close>

text \<open>The arrays of the four passes of a type, with what \<^verbatim>\<open>np.save\<close> takes from them.\<close>

lemma fixture_1:
  "make_data t 1 ord = Inr (np_arange 8 t) \<and> dtype (np_arange 8 t) = t
   \<and> shape (np_arange 8 t) = [8] \<and> \<not> fortran_order (np_arange 8 t)
   \<and> npy_payload (np_arange 8 t) = concat (map (encode t) [0, 1, 2, 3, 4, 5, 6, 7])"
  by (cases t) (simp_all add: eval_scalar eval_array eval_npy)

lemma fixture_2C:
  "\<exists>a. make_data t 2 OrderC = Inr a \<and> dtype a = t \<and> shape a = [4, 2] \<and> \<not> fortran_order a
     \<and> npy_payload a = concat (map (encode t) [0, 1, 2, 3, 4, 5, 6, 7])"
  by (cases t) (simp_all add: eval_scalar eval_array eval_npy)

lemma fixture_2F:
  "\<exists>a. make_data t 2 OrderF = Inr a \<and> dtype a = t \<and> shape a = [4, 2] \<and> fortran_order a
     \<and> npy_payload a = concat (map (encode t) [0, 1, 2, 3, 4, 5, 6, 7])"
  by (cases t) (simp_all add: eval_scalar eval_array eval_npy)

lemma script_files_arrays:
  assumes "script e fs = (fs', None)"
  shows "\<exists>a1 a2 a3 a4.
      make_data t 1 OrderC = Inr a1 \<and> make_data t 1 OrderF = Inr a2
    \<and> make_data t 2 OrderC = Inr a3 \<and> make_data t 2 OrderF = Inr a4
    \<and> fs' (fname (dtype_str t) 1) = Some (File (npy_bytes a1))
    \<and> fs' (fname (dtype_str t) 2) = Some (File (npy_bytes a2))
    \<and> fs' (fname (dtype_str t) 3) = Some (File (npy_bytes a3))
    \<and> fs' (fname (dtype_str t) 4) = Some (File (npy_bytes a4))"
  using script_files [OF assms, of t]
    make_data_Inr [of t 1 OrderC] make_data_Inr [of t 1 OrderF]
    make_data_Inr [of t 2 OrderC] make_data_Inr [of t 2 OrderF]
  by blast

lemma fname_eval: "fname s k = output_dir @ [s @ ''_'' @ str_int k @ ''.npy'']"
  by (simp add: fname_def)

lemma dtype_str_eval: "dtype_str t = kind t # str_nat (itemsize t)"
  by (simp add: dtype_str_def dtype_dot_str_def)

lemma writes_paths:
  "map fst writes = map (\<lambda>(t, k). fname (dtype_str t) k) (List.product dtype_list [1, 2, 3, 4])"
  unfolding writes_eval by (simp add: dtype_list_def eval_name)

lemma written_path:
  assumes "p \<in> fst ` set writes"
  shows "\<exists>t k. k \<in> {1, 2, 3, 4} \<and> p = fname (dtype_str t) k"
proof -
  from assms have "p \<in> set (map fst writes)" by simp
  then have "p \<in> set (map (\<lambda>(t, k). fname (dtype_str t) k) (List.product dtype_list [1, 2, 3, 4]))"
    by (simp only: writes_paths)
  then obtain t k where "(t, k) \<in> set (List.product dtype_list [1, 2, 3, 4])"
    "p = fname (dtype_str t) k" by auto
  then show ?thesis by auto
qed

lemma paths_distinct:
  "distinct (map (\<lambda>(t, k). fname (dtype_str t) k) (List.product dtype_list [1, 2, 3, 4]))"
  unfolding writes_paths [symmetric] writes_eval by simp

lemma dtype_list_all: "set dtype_list = UNIV"
proof -
  have "t \<in> set dtype_list" for t by (cases t) (simp_all add: dtype_list_def)
  then show ?thesis by blast
qed

text \<open>
  Claim C1, as the script behaves. The claim says that of the four files of a
  type only those numbered 2, 3 and 4 exist after a run, the first one being
  overwritten. But the counter \<^verbatim>\<open>ii\<close> is incremented after every save, so the two
  \<^verbatim>\<open>dims = 1\<close> passes save under the numbers 1 and 2 and nothing is overwritten:
  after a run from an empty working directory \<^verbatim>\<open>data/i1_1.npy\<close> is there.
\<close>

theorem first_file_persists:
  "snd (script no_faults Map.empty) = None
   \<and> fst (script no_faults Map.empty) [''data'', ''i1_1.npy''] \<noteq> None"
proof -
  have "[''data'', ''i1_1.npy''] \<in> fst ` set writes"
    unfolding writes_eval by simp
  from apply_writes_in [OF this] show ?thesis
    by (auto simp: script_no_faults_empty)
qed

text \<open>
  Claim C1, amended. After a run that ends without an exception, for every
  element type with code X the four files \<^verbatim>\<open>X_1.npy\<close>, \<^verbatim>\<open>X_2.npy\<close>, \<^verbatim>\<open>X_3.npy\<close> and
  \<^verbatim>\<open>X_4.npy\<close> exist in \<^verbatim>\<open>data\<close>, and the run has changed no path other than these
  and \<^verbatim>\<open>data\<close> itself.
\<close>

theorem four_files_per_type:
  assumes "script e fs = (fs', None)"
  shows "(\<exists>b1 b2 b3 b4.
        fs' (fname (dtype_str t) 1) = Some (File b1) \<and> fs' (fname (dtype_str t) 2) = Some (File b2)
      \<and> fs' (fname (dtype_str t) 3) = Some (File b3) \<and> fs' (fname (dtype_str t) 4) = Some (File b4))
    \<and> is_dir fs' output_dir
    \<and> (\<forall>p. fs' p \<noteq> fs p \<longrightarrow>
          p = output_dir \<or> (\<exists>t k. k \<in> {1, 2, 3, 4} \<and> p = fname (dtype_str t) k))"
proof -
  from assms obtain fs1 where m: "Path_mkdir e fs output_dir True = Inr fs1"
    and a: "fs' = apply_writes fs1 writes" and d: "is_dir fs' output_dir"
    by (rule script_None)
  have "p = output_dir \<or> (\<exists>t k. k \<in> {1, 2, 3, 4} \<and> p = fname (dtype_str t) k)"
    if p: "fs' p \<noteq> fs p" for p
  proof (cases "p \<in> fst ` set writes")
    case True
    from written_path [OF this] show ?thesis by blast
  next
    case False
    then have "fs' p = fs1 p" by (simp add: a apply_writes_other)
    with p Path_mkdir_Inr [OF m] show ?thesis by (auto split: if_splits)
  qed
  with script_files [OF assms, of t] d show ?thesis by blast
qed

theorem four_files_per_type_witness:
  "script no_faults Map.empty = (fst (script no_faults Map.empty), None)
   \<and> (\<exists>b1 b2 b3 b4.
        fst (script no_faults Map.empty) (fname (dtype_str np_int8) 1) = Some (File b1)
      \<and> fst (script no_faults Map.empty) (fname (dtype_str np_int8) 2) = Some (File b2)
      \<and> fst (script no_faults Map.empty) (fname (dtype_str np_int8) 3) = Some (File b3)
      \<and> fst (script no_faults Map.empty) (fname (dtype_str np_int8) 4) = Some (File b4))
   \<and> is_dir (fst (script no_faults Map.empty)) output_dir
   \<and> fst (script no_faults Map.empty) [''data'', ''i1_5.npy''] = None"
proof -
  have h: "script no_faults Map.empty = (fst (script no_faults Map.empty), None)"
    by (simp add: script_no_faults_empty)
  note c = four_files_per_type [OF h, of np_int8]
  have ne: "[''data'', ''i1_5.npy''] \<noteq> fname (dtype_str t) k" if "k \<in> {1, 2, 3, 4}" for t k
    using that by (cases t) (auto simp: eval_name)
  have nd: "[''data'', ''i1_5.npy''] \<noteq> output_dir"
    by (simp add: output_dir_def)
  from c have "fst (script no_faults Map.empty) p \<noteq> Map.empty p \<longrightarrow>
      p = output_dir \<or> (\<exists>t k. k \<in> {1, 2, 3, 4} \<and> p = fname (dtype_str t) k)" for p
    by blast
  from this [of "[''data'', ''i1_5.npy'']"] ne nd
  have "fst (script no_faults Map.empty) [''data'', ''i1_5.npy''] = Map.empty [''data'', ''i1_5.npy'']"
    by blast
  then have "fst (script no_faults Map.empty) [''data'', ''i1_5.npy''] = None"
    by simp
  with h c show ?thesis by blast
qed

text \<open>
  Claim C2. After a run that ends without an exception all 48 files are there:
  the 48 paths, four for each of the twelve types, are different from each
  other and each holds a file. For every type the files numbered 1 and 2, the
  two \<^verbatim>\<open>dims = 1\<close> files, are two paths with the same bytes: 24 files in 12 pairs.
\<close>

theorem all_files_persist_dims1_pairs_equal:
  assumes "script e fs = (fs', None)"
  shows "(\<exists>b1 b2 b3 b4.
        fs' (fname (dtype_str t) 1) = Some (File b1) \<and> fs' (fname (dtype_str t) 2) = Some (File b2)
      \<and> fs' (fname (dtype_str t) 3) = Some (File b3) \<and> fs' (fname (dtype_str t) 4) = Some (File b4)
      \<and> b1 = b2)
    \<and> fname (dtype_str t) 1 \<noteq> fname (dtype_str t) 2
    \<and> distinct (map (\<lambda>(t, k). fname (dtype_str t) k) (List.product dtype_list [1, 2, 3, 4]))
    \<and> length (List.product dtype_list [1, 2, 3, 4 :: int]) = 48
    \<and> length dtype_list = 12 \<and> set dtype_list = UNIV"
proof -
  have "make_data t 1 OrderC = make_data t 1 OrderF"
    by (simp add: make_data_def)
  with script_files [OF assms, of t]
  have "\<exists>b1 b2 b3 b4.
        fs' (fname (dtype_str t) 1) = Some (File b1) \<and> fs' (fname (dtype_str t) 2) = Some (File b2)
      \<and> fs' (fname (dtype_str t) 3) = Some (File b3) \<and> fs' (fname (dtype_str t) 4) = Some (File b4)
      \<and> b1 = b2"
    by simp
  moreover have "fname (dtype_str t) 1 \<noteq> fname (dtype_str t) 2"
    by (simp add: fname_def str_int_def str_nat_numeral str_nat_1 digit_char_def)
  moreover have "length (List.product dtype_list [1, 2, 3, 4 :: int]) = 48" "length dtype_list = 12"
    by (simp_all add: dtype_list_def)
  ultimately show ?thesis
    using paths_distinct dtype_list_all by blast
qed

theorem all_files_persist_dims1_pairs_equal_witness:
  "script no_faults Map.empty = (fst (script no_faults Map.empty), None)
   \<and> (\<exists>b1 b2 b3 b4.
        fst (script no_faults Map.empty) (fname (dtype_str np_float64) 1) = Some (File b1)
      \<and> fst (script no_faults Map.empty) (fname (dtype_str np_float64) 2) = Some (File b2)
      \<and> fst (script no_faults Map.empty) (fname (dtype_str np_float64) 3) = Some (File b3)
      \<and> fst (script no_faults Map.empty) (fname (dtype_str np_float64) 4) = Some (File b4)
      \<and> b1 = b2)
   \<and> fname (dtype_str np_float64) 1 \<noteq> fname (dtype_str np_float64) 2"
proof -
  have h: "script no_faults Map.empty = (fst (script no_faults Map.empty), None)"
    by (simp add: script_no_faults_empty)
  from h all_files_persist_dims1_pairs_equal [OF h, of np_float64] show ?thesis
    by blast
qed

text \<open>
  Claim C6. The code of a type in the file names is its kind character (one of
  i, u, f and c) followed by its item size in decimal, for example \<^verbatim>\<open>i4\<close> for
  \<^verbatim>\<open>int32\<close> and \<^verbatim>\<open>c16\<close> for \<^verbatim>\<open>complex128\<close>. After a run that ends without an
  exception, for every type the file \<^verbatim>\<open>{code}_{k}.npy\<close> in \<^verbatim>\<open>data\<close> holds what
  the \<open>k\<close>-th pass of that type saved, the passes taken with \<^verbatim>\<open>dims\<close> 1 then 2 and,
  inside, row-major then column-major order, and counted from 1 for each type
  anew: number 3 is the \<^verbatim>\<open>dims = 2\<close> row-major array, number 4 the \<^verbatim>\<open>dims = 2\<close>
  column-major one.
\<close>

theorem file_names_follow_iteration_order:
  assumes "script e fs = (fs', None)"
  shows "dtype_str t = kind t # str_nat (itemsize t)
    \<and> kind t \<in> {CHR ''i'', CHR ''u'', CHR ''f'', CHR ''c''}
    \<and> dtype_str np_int32 = ''i4'' \<and> dtype_str np_complex128 = ''c16''
    \<and> (\<exists>a1 a2 a3 a4.
          make_data t 1 OrderC = Inr a1 \<and> make_data t 1 OrderF = Inr a2
        \<and> make_data t 2 OrderC = Inr a3 \<and> make_data t 2 OrderF = Inr a4
        \<and> fs' (output_dir @ [dtype_str t @ ''_1.npy'']) = Some (File (npy_bytes a1))
        \<and> fs' (output_dir @ [dtype_str t @ ''_2.npy'']) = Some (File (npy_bytes a2))
        \<and> fs' (output_dir @ [dtype_str t @ ''_3.npy'']) = Some (File (npy_bytes a3))
        \<and> fs' (output_dir @ [dtype_str t @ ''_4.npy'']) = Some (File (npy_bytes a4)))
    \<and> map fst (dims_writes t (dtype_str t) [1, 2] 1)
      = [output_dir @ [dtype_str t @ ''_1.npy''], output_dir @ [dtype_str t @ ''_2.npy''],
         output_dir @ [dtype_str t @ ''_3.npy''], output_dir @ [dtype_str t @ ''_4.npy'']]"
proof -
  have n: "fname s 1 = output_dir @ [s @ ''_1.npy'']" "fname s 2 = output_dir @ [s @ ''_2.npy'']"
    "fname s 3 = output_dir @ [s @ ''_3.npy'']" "fname s 4 = output_dir @ [s @ ''_4.npy'']" for s
    by (simp_all add: fname_def str_int_def str_nat_numeral str_nat_1 digit_char_def)
  have "kind t \<in> {CHR ''i'', CHR ''u'', CHR ''f'', CHR ''c''}"
    by (cases t) simp_all
  moreover have "dtype_str np_int32 = ''i4''" "dtype_str np_complex128 = ''c16''"
    by (simp_all add: eval_name)
  moreover have "map fst (dims_writes t (dtype_str t) [1, 2] 1)
      = [output_dir @ [dtype_str t @ ''_1.npy''], output_dir @ [dtype_str t @ ''_2.npy''],
         output_dir @ [dtype_str t @ ''_3.npy''], output_dir @ [dtype_str t @ ''_4.npy'']]"
    by (simp add: n)
  ultimately show ?thesis
    using script_files_arrays [OF assms, of t] dtype_str_eval [of t] by (simp add: n)
qed

theorem file_names_follow_iteration_order_witness:
  "script no_faults Map.empty = (fst (script no_faults Map.empty), None)
   \<and> dtype_str np_uint16 = kind np_uint16 # str_nat (itemsize np_uint16)
   \<and> (\<exists>a1 a2 a3 a4.
          make_data np_uint16 1 OrderC = Inr a1 \<and> make_data np_uint16 1 OrderF = Inr a2
        \<and> make_data np_uint16 2 OrderC = Inr a3 \<and> make_data np_uint16 2 OrderF = Inr a4
        \<and> fst (script no_faults Map.empty) (output_dir @ [dtype_str np_uint16 @ ''_1.npy''])
          = Some (File (npy_bytes a1))
        \<and> fst (script no_faults Map.empty) (output_dir @ [dtype_str np_uint16 @ ''_2.npy''])
          = Some (File (npy_bytes a2))
        \<and> fst (script no_faults Map.empty) (output_dir @ [dtype_str np_uint16 @ ''_3.npy''])
          = Some (File (npy_bytes a3))
        \<and> fst (script no_faults Map.empty) (output_dir @ [dtype_str np_uint16 @ ''_4.npy''])
          = Some (File (npy_bytes a4)))"
proof -
  have h: "script no_faults Map.empty = (fst (script no_faults Map.empty), None)"
    by (simp add: script_no_faults_empty)
  from h file_names_follow_iteration_order [OF h, of np_uint16] show ?thesis
    by blast
qed

text \<open>
  Claim C7. Running the script again after a run that ended without an exception
  changes nothing: under the same operating system the second run also ends
  without an exception and leaves the file system as the first run left it, and
  so does any second run that ends without an exception. What a run saves in
  the four files of a type does not depend on where and when it runs.
\<close>

theorem rerun_is_idempotent:
  assumes "script e fs = (fs1, None)"
  shows "script e fs1 = (fs1, None)
    \<and> (\<forall>e' fs2. script e' fs1 = (fs2, None) \<longrightarrow> fs2 = fs1)
    \<and> (\<forall>e' g g'. script e' g = (g', None) \<longrightarrow>
          g' (fname (dtype_str t) 1) = fs1 (fname (dtype_str t) 1)
        \<and> g' (fname (dtype_str t) 2) = fs1 (fname (dtype_str t) 2)
        \<and> g' (fname (dtype_str t) 3) = fs1 (fname (dtype_str t) 3)
        \<and> g' (fname (dtype_str t) 4) = fs1 (fname (dtype_str t) 4))"
proof (intro conjI allI impI)
  show "script e fs1 = (fs1, None)"
    using assms by (rule script_again)
next
  fix e' fs2
  assume "script e' fs1 = (fs2, None)"
  with assms show "fs2 = fs1" by (rule script_rerun_same)
next
  fix e' g g'
  assume g: "script e' g = (g', None)"
  show "g' (fname (dtype_str t) 1) = fs1 (fname (dtype_str t) 1)"
    by (simp add: script_files [OF g] script_files [OF assms])
  show "g' (fname (dtype_str t) 2) = fs1 (fname (dtype_str t) 2)"
    by (simp add: script_files [OF g] script_files [OF assms])
  show "g' (fname (dtype_str t) 3) = fs1 (fname (dtype_str t) 3)"
    by (simp add: script_files [OF g] script_files [OF assms])
  show "g' (fname (dtype_str t) 4) = fs1 (fname (dtype_str t) 4)"
    by (simp add: script_files [OF g] script_files [OF assms])
qed

theorem rerun_is_idempotent_witness:
  "script no_faults Map.empty = (fst (script no_faults Map.empty), None)
   \<and> script no_faults (fst (script no_faults Map.empty)) = (fst (script no_faults Map.empty), None)"
proof -
  have h: "script no_faults Map.empty = (fst (script no_faults Map.empty), None)"
    by (simp add: script_no_faults_empty)
  from h rerun_is_idempotent [OF h, of np_int8] show ?thesis
    by blast
qed

text \<open>
  Claim C10. After a run that ends without an exception, each of the four files
  of a type is the NPY header of its array followed by the same element data:
  the encodings of 0, 1, ..., 7 in that type, least significant byte first, one
  after the other. The column-major array is saved in column-major order, which
  is again the order 0 to 7. So the four files differ in nothing but the header,
  which declares the same type, the shape (8) or (4, 2) and, for the last file
  only, column-major order; the two \<^verbatim>\<open>dims = 1\<close> arrays are the same array.
\<close>

theorem payload_same_in_all_four_files:
  assumes "script e fs = (fs', None)"
  shows "\<exists>a1 a2 a3 a4.
      make_data t 1 OrderC = Inr a1 \<and> make_data t 1 OrderF = Inr a2
    \<and> make_data t 2 OrderC = Inr a3 \<and> make_data t 2 OrderF = Inr a4
    \<and> fs' (fname (dtype_str t) 1) = Some (File (npy_header a1 @ npy_payload a1))
    \<and> fs' (fname (dtype_str t) 2) = Some (File (npy_header a2 @ npy_payload a2))
    \<and> fs' (fname (dtype_str t) 3) = Some (File (npy_header a3 @ npy_payload a3))
    \<and> fs' (fname (dtype_str t) 4) = Some (File (npy_header a4 @ npy_payload a4))
    \<and> npy_payload a1 = concat (map (encode t) [0, 1, 2, 3, 4, 5, 6, 7])
    \<and> npy_payload a2 = concat (map (encode t) [0, 1, 2, 3, 4, 5, 6, 7])
    \<and> npy_payload a3 = concat (map (encode t) [0, 1, 2, 3, 4, 5, 6, 7])
    \<and> npy_payload a4 = concat (map (encode t) [0, 1, 2, 3, 4, 5, 6, 7])
    \<and> a1 = a2
    \<and> dtype a1 = t \<and> dtype a2 = t \<and> dtype a3 = t \<and> dtype a4 = t
    \<and> shape a1 = [8] \<and> shape a2 = [8] \<and> shape a3 = [4, 2] \<and> shape a4 = [4, 2]
    \<and> \<not> fortran_order a1 \<and> \<not> fortran_order a2 \<and> \<not> fortran_order a3 \<and> fortran_order a4"
proof -
  from fixture_2C [of t] obtain a3 where a3: "make_data t 2 OrderC = Inr a3" "dtype a3 = t"
    "shape a3 = [4, 2]" "\<not> fortran_order a3"
    "npy_payload a3 = concat (map (encode t) [0, 1, 2, 3, 4, 5, 6, 7])" by blast
  from fixture_2F [of t] obtain a4 where a4: "make_data t 2 OrderF = Inr a4" "dtype a4 = t"
    "shape a4 = [4, 2]" "fortran_order a4"
    "npy_payload a4 = concat (map (encode t) [0, 1, 2, 3, 4, 5, 6, 7])" by blast
  note a1 = fixture_1 [of t OrderC] and a2 = fixture_1 [of t OrderF]
  from script_files [OF assms, of t] a1 a2 a3(1) a4(1)
  have "fs' (fname (dtype_str t) 1) = Some (File (npy_header (np_arange 8 t) @ npy_payload (np_arange 8 t)))"
    "fs' (fname (dtype_str t) 2) = Some (File (npy_header (np_arange 8 t) @ npy_payload (np_arange 8 t)))"
    "fs' (fname (dtype_str t) 3) = Some (File (npy_header a3 @ npy_payload a3))"
    "fs' (fname (dtype_str t) 4) = Some (File (npy_header a4 @ npy_payload a4))"
    by (simp_all add: npy_bytes_def)
  with a1 a2 a3 a4 show ?thesis by blast
qed

theorem payload_same_in_all_four_files_witness:
  "script no_faults Map.empty = (fst (script no_faults Map.empty), None)
   \<and> (\<exists>a1 a2 a3 a4.
      make_data np_int16 1 OrderC = Inr a1 \<and> make_data np_int16 1 OrderF = Inr a2
    \<and> make_data np_int16 2 OrderC = Inr a3 \<and> make_data np_int16 2 OrderF = Inr a4
    \<and> fst (script no_faults Map.empty) (fname (dtype_str np_int16) 3)
      = Some (File (npy_header a3 @ npy_payload a3))
    \<and> fst (script no_faults Map.empty) (fname (dtype_str np_int16) 4)
      = Some (File (npy_header a4 @ npy_payload a4))
    \<and> npy_payload a3 = [0, 0, 1, 0, 2, 0, 3, 0, 4, 0, 5, 0, 6, 0, 7, 0]
    \<and> npy_payload a4 = [0, 0, 1, 0, 2, 0, 3, 0, 4, 0, 5, 0, 6, 0, 7, 0]
    \<and> a1 = a2 \<and> \<not> fortran_order a3 \<and> fortran_order a4)"
proof -
  have h: "script no_faults Map.empty = (fst (script no_faults Map.empty), None)"
    by (simp add: script_no_faults_empty)
  have c: "concat (map (encode np_int16) [0, 1, 2, 3, 4, 5, 6, 7])
      = [0, 0, 1, 0, 2, 0, 3, 0, 4, 0, 5, 0, 6, 0, 7, 0]"
    by (simp add: eval_scalar)
  from payload_same_in_all_four_files [OF h, of np_int16] obtain a1 a2 a3 a4 where a:
    "make_data np_int16 1 OrderC = Inr a1" "make_data np_int16 1 OrderF = Inr a2"
    "make_data np_int16 2 OrderC = Inr a3" "make_data np_int16 2 OrderF = Inr a4"
    "fst (script no_faults Map.empty) (fname (dtype_str np_int16) 3)
      = Some (File (npy_header a3 @ npy_payload a3))"
    "fst (script no_faults Map.empty) (fname (dtype_str np_int16) 4)
      = Some (File (npy_header a4 @ npy_payload a4))"
    "npy_payload a3 = concat (map (encode np_int16) [0, 1, 2, 3, 4, 5, 6, 7])"
    "npy_payload a4 = concat (map (encode np_int16) [0, 1, 2, 3, 4, 5, 6, 7])"
    "a1 = a2" "\<not> fortran_order a3" "fortran_order a4"
    by blast
  from a(7, 8) c have p:
    "npy_payload a3 = [0, 0, 1, 0, 2, 0, 3, 0, 4, 0, 5, 0, 6, 0, 7, 0]"
    "npy_payload a4 = [0, 0, 1, 0, 2, 0, 3, 0, 4, 0, 5, 0, 6, 0, 7, 0]"
    by simp_all
  from h a(1-6) p a(9-11) show ?thesis by blast
qed

section \<open>Creating the directory, and failing\<close>

text \<open>
  Claim C9. Creating \<^verbatim>\<open>data\<close> succeeds when it is already a directory, whatever
  the operating system would answer, and leaves the file system as it is; it
  succeeds when nothing of that name exists and the operating system refuses
  nothing, and then the directory is there. It fails only when \<^verbatim>\<open>data\<close> is not a
  directory and either the operating system reports a fault or the name is
  taken (by a file); then the exception ends the run with the file system
  untouched. A later exception, raised by a save, also ends the run at once:
  the file system then holds all saves made before it, and the exception is the
  one that the next save raises there.
\<close>

theorem mkdir_exist_ok_and_failures_propagate:
  "(is_dir fs output_dir \<longrightarrow> Path_mkdir e fs output_dir True = Inr fs)
   \<and> (\<not> exists fs output_dir \<and> mkdir_fault e output_dir = None \<longrightarrow>
        Path_mkdir e fs output_dir True = Inr (fs(output_dir \<mapsto> Dir)))
   \<and> (\<forall>x. Path_mkdir e fs output_dir True = Inl x \<longrightarrow>
        \<not> is_dir fs output_dir
        \<and> ((\<exists>f. mkdir_fault e output_dir = Some f \<and> x = exn_of_fault f)
           \<or> (mkdir_fault e output_dir = None \<and> exists fs output_dir \<and> x = FileExistsError))
        \<and> script e fs = (fs, Some x))
   \<and> (\<forall>fs1 fs' x. Path_mkdir e fs output_dir True = Inr fs1 \<and> script e fs = (fs', Some x) \<longrightarrow>
        (\<exists>n < length writes. fs' = apply_writes fs1 (take n writes)
           \<and> np_save e fs' (fst (writes ! n)) (snd (writes ! n)) = Inl x))"
proof (intro conjI allI impI)
  assume "is_dir fs output_dir"
  then show "Path_mkdir e fs output_dir True = Inr fs" by (rule Path_mkdir_is_dir)
next
  assume "\<not> exists fs output_dir \<and> mkdir_fault e output_dir = None"
  then show "Path_mkdir e fs output_dir True = Inr (fs(output_dir \<mapsto> Dir))"
    by (simp add: Path_mkdir_fresh)
next
  fix x
  assume x: "Path_mkdir e fs output_dir True = Inl x"
  from Path_mkdir_Inl [OF x] show "\<not> is_dir fs output_dir" by simp
  from Path_mkdir_Inl [OF x]
  show "(\<exists>f. mkdir_fault e output_dir = Some f \<and> x = exn_of_fault f)
      \<or> (mkdir_fault e output_dir = None \<and> exists fs output_dir \<and> x = FileExistsError)"
    by simp
  from x show "script e fs = (fs, Some x)" by (simp add: script_def)
next
  fix fs1 fs' x
  assume "Path_mkdir e fs output_dir True = Inr fs1 \<and> script e fs = (fs', Some x)"
  then have m: "Path_mkdir e fs output_dir True = Inr fs1"
    and s: "script e fs = (fs', Some x)" by simp_all
  from s have "write_all e fs1 writes = (fs', Some x)"
    unfolding script_write_all m by simp
  from write_all_outcome [OF this]
  show "\<exists>n < length writes. fs' = apply_writes fs1 (take n writes)
      \<and> np_save e fs' (fst (writes ! n)) (snd (writes ! n)) = Inl x"
    by blast
qed

text \<open>
  For instance: a directory that is there and an operating system that refuses
  every \<^verbatim>\<open>mkdir\<close>; an empty working directory and one that refuses nothing; an
  empty working directory and one that refuses every \<^verbatim>\<open>mkdir\<close>; and one that
  refuses only to open \<^verbatim>\<open>data/i1_3.npy\<close>, under which the run ends with
  \<^verbatim>\<open>PermissionError\<close> and leaves the two files saved before.
\<close>

theorem mkdir_exist_ok_and_failures_propagate_witness:
  "Path_mkdir refuse_mkdir (Map.empty(output_dir \<mapsto> Dir)) output_dir True
     = Inr (Map.empty(output_dir \<mapsto> Dir))
   \<and> Path_mkdir no_faults Map.empty output_dir True = Inr (Map.empty(output_dir \<mapsto> Dir))
   \<and> Path_mkdir refuse_mkdir Map.empty output_dir True = Inl PermissionError
   \<and> script refuse_mkdir Map.empty = (Map.empty, Some PermissionError)
   \<and> script refuse_third Map.empty = (fst (script refuse_third Map.empty), Some PermissionError)
   \<and> (\<exists>n < length writes.
        fst (script refuse_third Map.empty)
          = apply_writes (Map.empty(output_dir \<mapsto> Dir)) (take n writes)
        \<and> np_save refuse_third (fst (script refuse_third Map.empty))
            (fst (writes ! n)) (snd (writes ! n)) = Inl PermissionError)
   \<and> fst (script refuse_third Map.empty) [''data'', ''i1_2.npy''] \<noteq> None"
proof -
  have d: "is_dir (Map.empty(output_dir \<mapsto> Dir)) output_dir"
    by (simp add: is_dir_def)
  have n: "\<not> exists Map.empty output_dir \<and> mkdir_fault no_faults output_dir = None"
    by (simp add: exists_def output_dir_def no_faults_def)
  have r: "Path_mkdir refuse_mkdir Map.empty output_dir True = Inl PermissionError"
    by (simp add: Path_mkdir_def os_mkdir_def refuse_mkdir_def is_dir_def output_dir_def)
  have m: "Path_mkdir refuse_third Map.empty output_dir True = Inr (Map.empty(output_dir \<mapsto> Dir))"
    by (simp add: Path_mkdir_def os_mkdir_def refuse_third_def is_dir_def exists_def output_dir_def)
  have s: "script refuse_third Map.empty
      = (Map.empty([''data''] \<mapsto> Dir,
           [''data'', ''i1_1.npy''] \<mapsto> File (npy_bytes (projr (make_data np_int8 1 OrderC))),
           [''data'', ''i1_2.npy''] \<mapsto> File (npy_bytes (projr (make_data np_int8 1 OrderF)))),
         Some PermissionError)"
    unfolding script_write_all m writes_eval
    by (simp add: np_save_def refuse_third_def is_dir_def exists_def output_dir_def)
  then have t: "script refuse_third Map.empty = (fst (script refuse_third Map.empty), Some PermissionError)"
    by simp
  from s have f: "fst (script refuse_third Map.empty) [''data'', ''i1_2.npy''] \<noteq> None"
    by simp
  note c = mkdir_exist_ok_and_failures_propagate
  from c [of "Map.empty(output_dir \<mapsto> Dir)" refuse_mkdir] d
  have 1: "Path_mkdir refuse_mkdir (Map.empty(output_dir \<mapsto> Dir)) output_dir True
     = Inr (Map.empty(output_dir \<mapsto> Dir))" by blast
  from c [of Map.empty no_faults] n
  have 2: "Path_mkdir no_faults Map.empty output_dir True = Inr (Map.empty(output_dir \<mapsto> Dir))"
    by blast
  from c [of Map.empty refuse_mkdir] r
  have 3: "script refuse_mkdir Map.empty = (Map.empty, Some PermissionError)" by blast
  from c [of Map.empty refuse_third] m t
  have 4: "\<exists>n < length writes.
        fst (script refuse_third Map.empty)
          = apply_writes (Map.empty(output_dir \<mapsto> Dir)) (take n writes)
        \<and> np_save refuse_third (fst (script refuse_third Map.empty))
            (fst (writes ! n)) (snd (writes ! n)) = Inl PermissionError"
    by blast
  from 1 2 r 3 t 4 f show ?thesis by blast
qed

end
